theory Spec2Isabelle
  imports Complex_Main "HOL-Library.Word"
begin

section \<open>Values and exceptions\<close>

text \<open>
  A Python exception is a value: its class name and its message. The classes raised by
  the code modelled here are IndexError (an index out of range), KeyError (a dictionary
  without the key), ValueError (a record array without the field), TypeError (arithmetic
  on a non-number) and IOError (a file that is not there, raised by the table reader);
  the external collaborators, which are parameters of the model, may raise any class.
\<close>

datatype exn = Exn (exn_class: string) (exn_msg: string)

text \<open>
  A double is a real number or NaN. Rounding, overflow and the infinities are not
  modelled: the arithmetic of the source is one subtraction, two additions of a constant
  and one mean. NaN is modelled because numpy returns it for the mean of an empty
  selection; every comparison with NaN is false and every operation on it gives NaN.
\<close>

datatype npfloat = Fin real | NaN

fun fsub :: "npfloat \<Rightarrow> real \<Rightarrow> npfloat" where
  "fsub (Fin x) c = Fin (x - c)"
| "fsub NaN c = NaN"

fun fadd :: "npfloat \<Rightarrow> real \<Rightarrow> npfloat" where
  "fadd (Fin x) c = Fin (x + c)"
| "fadd NaN c = NaN"

fun ge_f :: "real \<Rightarrow> npfloat \<Rightarrow> bool" where
  "ge_f d (Fin x) = (d \<ge> x)"
| "ge_f d NaN = False"

fun le_f :: "real \<Rightarrow> npfloat \<Rightarrow> bool" where
  "le_f d (Fin x) = (d \<le> x)"
| "le_f d NaN = False"

text \<open>\<^verbatim>\<open>np.mean\<close>: the sum over the count; NaN (with a warning, no exception) when the
  array is empty.\<close>

definition np_mean :: "real list \<Rightarrow> npfloat" where
  "np_mean xs = (if xs = [] then NaN else Fin (sum_list xs / real (length xs)))"

text \<open>
  The values a state dictionary holds: floats, integers and strings. Its integers are
  those of the commanded-states table (the CCD and FEP counts, the observation
  identifier, ...), 64-bit signed integers, so that converting one to a double, as
  \<^verbatim>\<open>state0[key] - 10.0\<close> does, never overflows.
\<close>

datatype pyval = PFloat npfloat | PInt "64 word" | PStr string

text \<open>The number a value stands for in float arithmetic; a string is no number.\<close>

fun py_float :: "pyval \<Rightarrow> npfloat option" where
  "py_float (PFloat f) = Some f"
| "py_float (PInt i) = Some (Fin (real_of_int (sint i)))"
| "py_float (PStr s) = None"

type_synonym state = "string \<rightharpoonup> pyval"

text \<open>Indexing as Python and numpy do it: a negative index counts from the end, an
  index out of range raises IndexError.\<close>

definition py_index :: "'a list \<Rightarrow> int \<Rightarrow> exn + 'a" where
  "py_index xs i =
     (if - int (length xs) \<le> i \<and> i < int (length xs)
      then Inr (xs ! nat (if i < 0 then i + int (length xs) else i))
      else Inl (Exn ''IndexError'' ''index out of bounds''))"

text \<open>Selection by a boolean mask, \<^verbatim>\<open>a[ok]\<close>: the elements at the positions where the
  mask is true.\<close>

definition mask_select :: "'a list \<Rightarrow> bool list \<Rightarrow> 'a list" where
  "mask_select xs ok = map fst (filter snd (zip xs ok))"

section \<open>The model engine\<close>

text \<open>
  numpy arrays by element type. The planned states are a numpy record array: named
  columns, in order; \<^verbatim>\<open>states[name]\<close> raises ValueError when there is no such field.
\<close>

datatype ndarray = Floats "npfloat list" | Bools "bool list" | Strs "string list"

type_synonym table = "(string \<times> ndarray) list"

definition field :: "table \<Rightarrow> string \<Rightarrow> exn + ndarray" where
  "field t name =
     (case map_of t name of
        None \<Rightarrow> Inl (Exn ''ValueError'' (''no field of name '' @ name))
      | Some c \<Rightarrow> Inr c)"

text \<open>
  What \<^verbatim>\<open>set_data(data, times)\<close> of a xija component receives: \<^verbatim>\<open>None\<close>, a scalar, the
  constant \<^verbatim>\<open>False\<close> or an array for the data; \<^verbatim>\<open>None\<close>, one array of times or the
  two-row array \<^verbatim>\<open>np.array([states['tstart'], states['tstop']])\<close> for the times.
\<close>

datatype xdata = Scalar npfloat | BoolConst bool | Array ndarray

datatype xtimes = Times1 ndarray | Times2 ndarray ndarray

record node =
  node_data :: "xdata option"
  node_times :: "xtimes option"

text \<open>
  The xija model object: what it was built from, its components by name, and after
  \<^verbatim>\<open>calc()\<close> the predicted values of each component.
\<close>

record 'spec xmodel =
  m_name :: string
  m_start :: real
  m_stop :: real
  m_spec :: 'spec
  comp :: "string \<rightharpoonup> node"
  made :: bool
  mvals :: "(string \<times> npfloat list) list option"

text \<open>
  The collaborators of \<^verbatim>\<open>calc_model\<close> that are outside the repository, as parameters:
  the components a model specification declares; the driver values \<^verbatim>\<open>dvals\<close> of a
  component given the model bounds and what \<^verbatim>\<open>set_data\<close> stored (a scalar spread over the
  model times, an array interpolated, telemetry fetched when the data is \<^verbatim>\<open>None\<close>); the
  integration behind \<^verbatim>\<open>make()\<close> and \<^verbatim>\<open>calc()\<close>; and
  \<^verbatim>\<open>acis_thermal_check.utils.calc_off_nom_rolls\<close>.
\<close>

record 'spec engine =
  spec_comps :: "'spec \<Rightarrow> string list"
  node_dvals :: "'spec \<Rightarrow> real \<Rightarrow> real \<Rightarrow> string \<Rightarrow> xdata option \<Rightarrow> xtimes option
                   \<Rightarrow> exn + npfloat list"
  integrate :: "'spec xmodel \<Rightarrow> exn + (string \<times> npfloat list) list"
  calc_off_nom_rolls :: "table \<Rightarrow> exn + ndarray"

definition bind_exn :: "exn + 'a \<Rightarrow> ('a \<Rightarrow> exn + 'b) \<Rightarrow> exn + 'b" where
  "bind_exn r f = (case r of Inl e \<Rightarrow> Inl e | Inr x \<Rightarrow> f x)"

text \<open>\<^verbatim>\<open>xija.XijaModel(name, start=start, stop=stop, model_spec=model_spec)\<close>: the
  components of the specification, none with data yet.\<close>

definition XijaModel :: "'spec engine \<Rightarrow> string \<Rightarrow> real \<Rightarrow> real \<Rightarrow> 'spec \<Rightarrow> 'spec xmodel" where
  "XijaModel eng name start stop spec =
     \<lparr>m_name = name, m_start = start, m_stop = stop, m_spec = spec,
      comp = (\<lambda>n. if n \<in> set (spec_comps eng spec)
                    then Some \<lparr>node_data = None, node_times = None\<rparr> else None),
      made = False, mvals = None\<rparr>"

text \<open>
  \<^verbatim>\<open>model.comp[name].set_data(data, times)\<close>. Python looks the component up first
  (KeyError when the model has none of that name), then evaluates the argument, which
  may raise itself, then stores.
\<close>

definition set_data ::
  "'spec xmodel \<Rightarrow> string \<Rightarrow> exn + xdata option \<Rightarrow> xtimes option \<Rightarrow> exn + 'spec xmodel" where
  "set_data model name arg tms =
     (case comp model name of
        None \<Rightarrow> Inl (Exn ''KeyError'' name)
      | Some _ \<Rightarrow>
          (case arg of
             Inl e \<Rightarrow> Inl e
           | Inr d \<Rightarrow>
               Inr (model\<lparr>comp := (comp model)(name \<mapsto> \<lparr>node_data = d, node_times = tms\<rparr>)\<rparr>)))"

text \<open>\<^verbatim>\<open>model.comp[name].dvals\<close>.\<close>

definition comp_dvals :: "'spec engine \<Rightarrow> 'spec xmodel \<Rightarrow> string \<Rightarrow> exn + npfloat list" where
  "comp_dvals eng model name =
     (case comp model name of
        None \<Rightarrow> Inl (Exn ''KeyError'' name)
      | Some nd \<Rightarrow>
          node_dvals eng (m_spec model) (m_start model) (m_stop model) name
            (node_data nd) (node_times nd))"

text \<open>\<^verbatim>\<open>model.make()\<close> and \<^verbatim>\<open>model.calc()\<close>: the engine integrates and the model keeps
  the prediction; the data of the components stay as they were set.\<close>

definition make_model :: "'spec xmodel \<Rightarrow> 'spec xmodel" where
  "make_model model = model\<lparr>made := True\<rparr>"

definition calc :: "'spec engine \<Rightarrow> 'spec xmodel \<Rightarrow> exn + 'spec xmodel" where
  "calc eng model =
     (case integrate eng model of
        Inl e \<Rightarrow> Inl e
      | Inr p \<Rightarrow> Inr (model\<lparr>mvals := Some p\<rparr>))"

section \<open>The model driver\<close>

text \<open>The loop of lines 64 and 65: \<^verbatim>\<open>model.comp[name].set_data(states[name], times)\<close>
  for each name in turn.\<close>

fun set_states_data ::
  "'spec xmodel \<Rightarrow> table \<Rightarrow> xtimes option \<Rightarrow> string list \<Rightarrow> exn + 'spec xmodel" where
  "set_states_data model states tms [] = Inr model"
| "set_states_data model states tms (name # names) =
     bind_exn (set_data model name (bind_exn (field states name) (\<lambda>c. Inr (Some (Array c)))) tms)
       (\<lambda>model'. set_states_data model' states tms names)"

text \<open>The function \<^verbatim>\<open>calc_model\<close>, line by line; \<open>tms\<close> is the variable \<^verbatim>\<open>times\<close>. The
  offset \<open>10\<close> is the literal \<^verbatim>\<open>10.0\<close> of line 60.\<close>

definition calc_model ::
  "'spec engine \<Rightarrow> 'spec \<Rightarrow> table \<Rightarrow> real \<Rightarrow> real \<Rightarrow> xdata option \<Rightarrow> xtimes option
     \<Rightarrow> xdata option \<Rightarrow> xtimes option \<Rightarrow> xdata option \<Rightarrow> xtimes option \<Rightarrow> exn + 'spec xmodel" where
  "calc_model eng model_spec states start stop T_psmc T_psmc_times T_pin1at T_pin1at_times
      dh_heater dh_heater_times =
     (let model = XijaModel eng ''psmc'' start stop model_spec in
      bind_exn (field states ''tstart'') (\<lambda>c1.
      bind_exn (field states ''tstop'') (\<lambda>c2.
      let tms = Some (Times2 c1 c2) in
      bind_exn (set_data model ''sim_z''
                  (bind_exn (field states ''simpos'') (\<lambda>c. Inr (Some (Array c)))) tms) (\<lambda>model.
      bind_exn (set_data model ''1pdeaat'' (Inr T_psmc) T_psmc_times) (\<lambda>model.
      bind_exn (case T_pin1at of
                  None \<Rightarrow> bind_exn (comp_dvals eng model ''1pdeaat'')
                            (\<lambda>dvals. Inr (Some (Array (Floats (map (\<lambda>v. fsub v 10) dvals)))))
                | Some v \<Rightarrow> Inr (Some v)) (\<lambda>T_pin1at.
      bind_exn (set_data model ''pin1at'' (Inr T_pin1at) T_pin1at_times) (\<lambda>model.
      bind_exn (set_data model ''roll''
                  (bind_exn (calc_off_nom_rolls eng states) (\<lambda>c. Inr (Some (Array c)))) tms) (\<lambda>model.
      bind_exn (set_data model ''eclipse'' (Inr (Some (BoolConst False))) None) (\<lambda>model.
      bind_exn (set_states_data model states tms
                  [''ccd_count'', ''fep_count'', ''vid_board'', ''clocking'', ''pitch'']) (\<lambda>model.
      bind_exn (set_data model ''dh_heater'' (Inr dh_heater) dh_heater_times) (\<lambda>model.
      calc eng (make_model model))))))))))))"

section \<open>The thermal check object\<close>

text \<open>
  The telemetry table \<^verbatim>\<open>tlm\<close> is a numpy structured array: a sequence of rows with
  the same fields. \<^verbatim>\<open>set_initial_state\<close> reads two of them, \<^verbatim>\<open>tlm['date']\<close> and
  \<^verbatim>\<open>tlm[self.msid]\<close>; the samples are finite numbers.
\<close>

record sample =
  date :: real
  msid_val :: real

type_synonym telemetry = "sample list"

text \<open>
  The collaborators outside the repository are parameters: \<^verbatim>\<open>DateTime(t).date\<close> and
  \<^verbatim>\<open>date2secs\<close> of Chandra.Time, and
  \<^verbatim>\<open>cmd_states.get_state0(date, db, datepar, date_margin)\<close>, which returns the state
  dictionary or raises.
\<close>

record 'db externals =
  DateTime_date :: "real \<Rightarrow> string"
  date2secs :: "string \<Rightarrow> real"
  get_state0 :: "string \<Rightarrow> 'db \<Rightarrow> string \<Rightarrow> int \<Rightarrow> exn + state"

text \<open>
  The attributes of \<^verbatim>\<open>self\<close> that the methods read. The constructor of the base class
  \<^verbatim>\<open>ACISThermalCheck\<close> sets them: the MSID, the name \<^verbatim>\<open>t_msid\<close> of the tracked
  temperature in a state dictionary, and the model function it was given.
\<close>

record 'spec check =
  msid :: string
  t_msid :: string
  self_calc_model ::
    "'spec \<Rightarrow> table \<Rightarrow> real \<Rightarrow> real \<Rightarrow> xdata option \<Rightarrow> xtimes option
       \<Rightarrow> xdata option \<Rightarrow> xtimes option \<Rightarrow> xdata option \<Rightarrow> xtimes option \<Rightarrow> exn + 'spec xmodel"

text \<open>
  Lines 76 to 79 of \<^verbatim>\<open>set_initial_state\<close>, from the state that
  \<^verbatim>\<open>get_state0\<close> returned: the mask \<^verbatim>\<open>ok\<close>, the mean, the update of the dictionary.
  \<^verbatim>\<open>state0['tstart']\<close> raises KeyError when the key is missing and
  \<^verbatim>\<open>state0['tstart'] - 700\<close> raises TypeError on a string.
\<close>

definition seed_state0 :: "'spec check \<Rightarrow> telemetry \<Rightarrow> state \<Rightarrow> exn + state" where
  "seed_state0 self tlm state0 =
     (case state0 ''tstart'' of
        None \<Rightarrow> Inl (Exn ''KeyError'' ''tstart'')
      | Some v \<Rightarrow>
          (case py_float v of
             None \<Rightarrow> Inl (Exn ''TypeError'' ''unsupported operand type(s)'')
           | Some tstart \<Rightarrow>
               (let ok = map (\<lambda>d. ge_f d (fsub tstart 700) \<and> le_f d (fadd tstart 700))
                             (map date tlm)
                in Inr (state0(t_msid self \<mapsto>
                          PFloat (np_mean (mask_select (map msid_val tlm) ok)))))))"

text \<open>\<^verbatim>\<open>PSMCModelCheck.set_initial_state(self, tlm, db)\<close>.\<close>

definition set_initial_state ::
  "'db externals \<Rightarrow> 'spec check \<Rightarrow> telemetry \<Rightarrow> 'db \<Rightarrow> exn + state" where
  "set_initial_state ext self tlm db =
     (case py_index (map date tlm) (- 5) of
        Inl e \<Rightarrow> Inl e
      | Inr d \<Rightarrow>
          (case get_state0 ext (DateTime_date ext d) db ''datestart'' (- 100) of
             Inl e \<Rightarrow> Inl e
           | Inr state0 \<Rightarrow> seed_state0 self tlm state0))"

text \<open>
  The files the process can see, the paths it tried to read and the lines it logged.
  The heater history is a table of rows \<^verbatim>\<open>time\<close>, \<^verbatim>\<open>dahtbon\<close>.
\<close>

record rdb_row =
  time :: string
  dahtbon :: int

record world =
  files :: "string \<rightharpoonup> rdb_row list"
  opened :: "string list"
  logged :: "string list"

text \<open>\<^verbatim>\<open>os.path.join(a, b)\<close> for a relative \<open>b\<close>.\<close>

definition os_path_join :: "string \<Rightarrow> string \<Rightarrow> string" where
  "os_path_join a b =
     (if a = [] then b else if last a = CHR ''/'' then a @ b else a @ ''/'' @ b)"

definition logger_info :: "world \<Rightarrow> string \<Rightarrow> world" where
  "logger_info w line = w\<lparr>logged := logged w @ [line]\<rparr>"

text \<open>\<^verbatim>\<open>ascii.read(path, format='rdb')\<close> of astropy: the attempt is recorded; a file
  that is not there raises IOError.\<close>

definition ascii_read :: "world \<Rightarrow> string \<Rightarrow> world \<times> (exn + rdb_row list)" where
  "ascii_read w path =
     (w\<lparr>opened := opened w @ [path]\<rparr>,
      case files w path of
        None \<Rightarrow> Inl (Exn ''IOError'' (''No such file or directory: '' @ path))
      | Some rows \<Rightarrow> Inr rows)"

text \<open>\<^verbatim>\<open>PSMCModelCheck.calc_model_wrapper\<close>; the world goes in and comes out.\<close>

definition calc_model_wrapper ::
  "'db externals \<Rightarrow> 'spec check \<Rightarrow> world \<Rightarrow> string \<Rightarrow> 'spec \<Rightarrow> table \<Rightarrow> real \<Rightarrow> real
     \<Rightarrow> state option \<Rightarrow> world \<times> (exn + 'spec xmodel)" where
  "calc_model_wrapper ext self w oflsdir model_spec states tstart tstop state0 =
     (case state0 of
        None \<Rightarrow>
          (w, self_calc_model self model_spec states tstart tstop None None None None None None)
      | Some s \<Rightarrow>
          (case s (t_msid self) of
             None \<Rightarrow> (w, Inl (Exn ''KeyError'' (t_msid self)))
           | Some v \<Rightarrow>
               (case py_float v of
                  None \<Rightarrow> (w, Inl (Exn ''TypeError'' ''unsupported operand type(s)''))
                | Some x \<Rightarrow>
                    (let start_msid = Scalar x;
                         start_pin = Scalar (fsub x 10);
                         htrbfn = os_path_join oflsdir ''dahtbon_history.rdb'';
                         w1 = logger_info w (''Reading file of dahtrb commands from file '' @ htrbfn);
                         (w2, r) = ascii_read w1 htrbfn
                     in case r of
                          Inl e \<Rightarrow> (w2, Inl e)
                        | Inr htrb \<Rightarrow>
                            (let dh_heater_times =
                                   Times1 (Floats (map (\<lambda>row. Fin (date2secs ext (time row))) htrb));
                                 dh_heater = Array (Bools (map (\<lambda>row. dahtbon row \<noteq> 0) htrb))
                             in (w2, self_calc_model self model_spec states tstart tstop
                                       (Some start_msid) None (Some start_pin) None
                                       (Some dh_heater) (Some dh_heater_times)))))))"

text \<open>
  Modelled from the spec: \<^verbatim>\<open>ACISThermalCheck.write_states(opt, states, remove_cols)\<close>,
  the method of the base class that exports the state table, is not among the sources.
  The specification says of it that the planned timeline is exported with the
  internally derived column removed; so the export keeps, in order and unchanged, the
  columns that \<^verbatim>\<open>remove_cols\<close> does not name.
\<close>

definition base_write_states :: "'opt \<Rightarrow> table \<Rightarrow> string list \<Rightarrow> table" where
  "base_write_states opt states remove_cols = filter (\<lambda>c. fst c \<notin> set remove_cols) states"

text \<open>\<^verbatim>\<open>PSMCModelCheck.write_states\<close>: line 100.\<close>

definition write_states :: "'opt \<Rightarrow> table \<Rightarrow> table" where
  "write_states opt states = base_write_states opt states [''T_pin1at'']"

text \<open>The module's instance, line 102; \<^verbatim>\<open>t_msid\<close> is what the constructor of the
  base class derives.\<close>

definition psmc_check :: "'spec engine \<Rightarrow> string \<Rightarrow> 'spec check" where
  "psmc_check eng t = \<lparr>msid = ''1pdeaat'', t_msid = t, self_calc_model = calc_model eng\<rparr>"

section \<open>main\<close>

text \<open>
  The options \<^verbatim>\<open>main\<close> reads are the traceback flag. How a run of \<^verbatim>\<open>main\<close> ends: it
  returns, it leaves through \<^verbatim>\<open>sys.exit(n)\<close>, or an exception goes on to the
  interpreter. The values of \<^typ>\<open>exn\<close> stand for instances of \<^verbatim>\<open>Exception\<close>, which is
  what the handler of line 115 catches.
\<close>

record args =
  traceback :: bool

datatype ending = Returned | SysExit int | Propagated exn

record opt_spec =
  opt_type :: string
  opt_default :: int
  opt_help :: string

text \<open>\<^verbatim>\<open>str(msg)\<close>.\<close>

definition py_str :: "exn \<Rightarrow> string" where
  "py_str e = exn_msg e"

text \<open>\<^verbatim>\<open>main\<close>: \<^verbatim>\<open>get_options\<close> and \<^verbatim>\<open>psmc_check.driver\<close> are parameters; the result is
  the lines printed and the ending.\<close>

definition main ::
  "(string \<Rightarrow> string \<Rightarrow> string \<Rightarrow> (string \<times> opt_spec) list \<Rightarrow> args) \<Rightarrow> (args \<Rightarrow> exn + unit)
     \<Rightarrow> string \<Rightarrow> string list \<times> ending" where
  "main get_options driver model_path =
     (let dhh_opt = \<lparr>opt_type = ''int'', opt_default = 0,
                      opt_help = ''Starting Detector Housing Heater state''\<rparr>;
          args = get_options ''1PDEAAT'' ''psmc'' model_path [(''dh_heater'', dhh_opt)]
      in case driver args of
           Inr _ \<Rightarrow> ([], Returned)
         | Inl msg \<Rightarrow>
             if traceback args then ([], Propagated msg)
             else ([''ERROR: '' @ py_str msg], SysExit 1))"

text \<open>The exit status of the process that ran \<^verbatim>\<open>main()\<close> as a script (lines 122 and
  123): 0 after a return, the argument of \<^verbatim>\<open>sys.exit\<close>, 1 after an uncaught exception.\<close>

fun exit_status :: "ending \<Rightarrow> int" where
  "exit_status Returned = 0"
| "exit_status (SysExit n) = n"
| "exit_status (Propagated e) = 1"

section \<open>Example inputs\<close>

text \<open>
  Concrete inputs for the closed theorems below: six telemetry samples 300 seconds
  apart, a state database that knows one state (found from the date of the
  fifth-from-last sample), a model specification with the eleven components
  \<^verbatim>\<open>calc_model\<close> addresses, a planned timeline of two intervals, and a planning
  directory with and without the heater history.
\<close>

definition ex_tlm :: telemetry where
  "ex_tlm = [\<lparr>date = 1000, msid_val = 30\<rparr>, \<lparr>date = 1300, msid_val = 32\<rparr>,
             \<lparr>date = 1600, msid_val = 34\<rparr>, \<lparr>date = 1900, msid_val = 36\<rparr>,
             \<lparr>date = 2200, msid_val = 38\<rparr>, \<lparr>date = 2500, msid_val = 40\<rparr>]"

definition ex_state0 :: "real \<Rightarrow> state" where
  "ex_state0 ts = [''tstart'' \<mapsto> PFloat (Fin ts), ''datestart'' \<mapsto> PStr ''2012:001'',
                   ''ccd_count'' \<mapsto> PInt 6]"

definition ex_seeded :: state where
  "ex_seeded = (ex_state0 1500)(''T_psmc'' \<mapsto> PFloat (Fin 45))"

definition ex_ext :: "real \<Rightarrow> unit externals" where
  "ex_ext ts = \<lparr>DateTime_date = (\<lambda>t. if t = 1300 then ''fifth-from-last'' else ''other''),
            date2secs = (\<lambda>s. real (length s)),
            get_state0 = (\<lambda>d db par margin.
               if d = ''fifth-from-last'' \<and> par = ''datestart'' \<and> margin = - 100
               then Inr (ex_state0 ts)
               else Inl (Exn ''ValueError'' ''no state''))\<rparr>"

definition ex_spec :: "string list" where
  "ex_spec = [''sim_z'', ''1pdeaat'', ''pin1at'', ''roll'', ''eclipse'', ''ccd_count'',
              ''fep_count'', ''vid_board'', ''clocking'', ''pitch'', ''dh_heater'']"

definition ex_eng :: "string list engine" where
  "ex_eng = \<lparr>spec_comps = (\<lambda>spec. spec),
             node_dvals = (\<lambda>spec start stop name d t.
                case d of Some (Scalar x) \<Rightarrow> Inr [x, x, x]
                        | _ \<Rightarrow> Inr [Fin 20, Fin 21, Fin 22]),
             integrate = (\<lambda>model. Inr [(''1pdeaat'', [Fin 30, Fin 31, Fin 32])]),
             calc_off_nom_rolls = (\<lambda>states. Inr (Floats [Fin 0, Fin 1]))\<rparr>"


definition ex_states :: table where
  "ex_states = [(''tstart'', Floats [Fin 0, Fin 50]), (''tstop'', Floats [Fin 50, Fin 100]),
                (''datestart'', Strs [''2012:001'', ''2012:002'']),
                (''simpos'', Floats [Fin (- 50000), Fin 75000]),
                (''pitch'', Floats [Fin 150, Fin 90]),
                (''ccd_count'', Floats [Fin 6, Fin 6]), (''fep_count'', Floats [Fin 6, Fin 6]),
                (''vid_board'', Floats [Fin 1, Fin 1]), (''clocking'', Floats [Fin 1, Fin 0]),
                (''T_pin1at'', Floats [Fin 35, Fin 35])]"

definition ex_world :: world where
  "ex_world = \<lparr>files = [''/ofls/dahtbon_history.rdb'' \<mapsto>
                          [\<lparr>time = ''2012:001'', dahtbon = 1\<rparr>, \<lparr>time = ''2012:002:0'', dahtbon = 0\<rparr>]],
               opened = [], logged = []\<rparr>"

definition ex_world_nofile :: world where
  "ex_world_nofile = \<lparr>files = Map.empty, opened = [], logged = []\<rparr>"

definition ex_get_options ::
  "bool \<Rightarrow> string \<Rightarrow> string \<Rightarrow> string \<Rightarrow> (string \<times> opt_spec) list \<Rightarrow> args" where
  "ex_get_options tb name model_name path opts = \<lparr>traceback = tb\<rparr>"

definition ex_driver :: "bool \<Rightarrow> args \<Rightarrow> exn + unit" where
  "ex_driver ok a = (if ok then Inr () else Inl (Exn ''ValueError'' ''no telemetry''))"

section \<open>Helper lemmas\<close>

lemma mask_select_map:
  "mask_select (map f xs) (map q xs) = map f (filter q xs)"
  by (induction xs) (simp_all add: mask_select_def)

lemma py_index_short:
  "length xs < 5 \<Longrightarrow> py_index xs (- 5) = Inl (Exn ''IndexError'' ''index out of bounds'')"
  by (simp add: py_index_def)

lemma py_index_fifth_from_last:
  assumes "5 \<le> length xs"
  shows "py_index xs (- 5) = Inr (xs ! (length xs - 5))"
proof -
  have "nat (- 5 + int (length xs)) = length xs - 5"
    using assms by simp
  with assms show ?thesis
    by (simp add: py_index_def)
qed

lemma bind_exn_Inr:
  "bind_exn r f = Inr y \<Longrightarrow> \<exists>x. r = Inr x \<and> f x = Inr y"
  by (cases r) (simp_all add: bind_exn_def)

lemma set_data_Inr:
  assumes "set_data m n a t = Inr m'"
  shows "\<exists>d. a = Inr d \<and> comp m n \<noteq> None
            \<and> m' = m\<lparr>comp := (comp m)(n \<mapsto> \<lparr>node_data = d, node_times = t\<rparr>)\<rparr>"
  using assms by (auto simp: set_data_def split: option.splits sum.splits)

lemma set_data_same:
  "set_data m n (Inr d) t = Inr m' \<Longrightarrow> comp m' n = Some \<lparr>node_data = d, node_times = t\<rparr>"
  by (auto dest: set_data_Inr)

lemma set_data_other:
  "set_data m n a t = Inr m' \<Longrightarrow> k \<noteq> n \<Longrightarrow> comp m' k = comp m k"
  by (auto dest: set_data_Inr)

lemma set_data_built:
  "set_data m n a t = Inr m' \<Longrightarrow>
     m_spec m' = m_spec m \<and> m_start m' = m_start m \<and> m_stop m' = m_stop m"
  by (auto dest: set_data_Inr)

lemma set_states_data_other:
  "set_states_data m states t names = Inr m' \<Longrightarrow> k \<notin> set names \<Longrightarrow> comp m' k = comp m k"
proof (induction names arbitrary: m)
  case Nil
  then show ?case by simp
next
  case (Cons name names)
  from Cons.prems(1) obtain m1 where
    s1: "set_data m name (bind_exn (field states name) (\<lambda>c. Inr (Some (Array c)))) t = Inr m1"
    and s2: "set_states_data m1 states t names = Inr m'"
    by (auto dest: bind_exn_Inr)
  from Cons.prems(2) have "k \<noteq> name" and "k \<notin> set names" by simp_all
  with Cons.IH [OF s2] set_data_other [OF s1] show ?case by simp
qed

lemma calc_comp: "calc eng m = Inr m' \<Longrightarrow> comp m' = comp m"
  by (auto simp: calc_def split: sum.splits)

lemma make_comp: "comp (make_model m) = comp m"
  by (simp add: make_model_def)

text \<open>What a run of \<^verbatim>\<open>calc_model\<close> that returns has stored in the components: the
  tracked sensor, the companion sensor, the eclipse flag and the heater.\<close>

lemma calc_model_Inr:
  assumes "calc_model eng model_spec states start stop T_psmc T_psmc_times T_pin1at
             T_pin1at_times dh_heater dh_heater_times = Inr m"
  shows "\<exists>pin. (case T_pin1at of
                  None \<Rightarrow> bind_exn (node_dvals eng model_spec start stop ''1pdeaat'' T_psmc T_psmc_times)
                            (\<lambda>dvals. Inr (Some (Array (Floats (map (\<lambda>v. fsub v 10) dvals)))))
                | Some v \<Rightarrow> Inr (Some v)) = Inr pin
           \<and> comp m ''1pdeaat'' = Some \<lparr>node_data = T_psmc, node_times = T_psmc_times\<rparr>
           \<and> comp m ''pin1at'' = Some \<lparr>node_data = pin, node_times = T_pin1at_times\<rparr>
           \<and> comp m ''eclipse'' = Some \<lparr>node_data = Some (BoolConst False), node_times = None\<rparr>
           \<and> comp m ''dh_heater'' = Some \<lparr>node_data = dh_heater, node_times = dh_heater_times\<rparr>"
proof -
  define m0 where "m0 = XijaModel eng ''psmc'' start stop model_spec"
  from assms obtain c1 c2 m1 m2 pin m3 m4 m5 m6 m7 where
    f1: "field states ''tstart'' = Inr c1" and f2: "field states ''tstop'' = Inr c2"
    and s1: "set_data m0 ''sim_z'' (bind_exn (field states ''simpos'') (\<lambda>c. Inr (Some (Array c))))
               (Some (Times2 c1 c2)) = Inr m1"
    and s2: "set_data m1 ''1pdeaat'' (Inr T_psmc) T_psmc_times = Inr m2"
    and p: "(case T_pin1at of
                  None \<Rightarrow> bind_exn (comp_dvals eng m2 ''1pdeaat'')
                            (\<lambda>dvals. Inr (Some (Array (Floats (map (\<lambda>v. fsub v 10) dvals)))))
                | Some v \<Rightarrow> Inr (Some v)) = Inr pin"
    and s3: "set_data m2 ''pin1at'' (Inr pin) T_pin1at_times = Inr m3"
    and s4: "set_data m3 ''roll'' (bind_exn (calc_off_nom_rolls eng states) (\<lambda>c. Inr (Some (Array c))))
               (Some (Times2 c1 c2)) = Inr m4"
    and s5: "set_data m4 ''eclipse'' (Inr (Some (BoolConst False))) None = Inr m5"
    and s6: "set_states_data m5 states (Some (Times2 c1 c2))
               [''ccd_count'', ''fep_count'', ''vid_board'', ''clocking'', ''pitch''] = Inr m6"
    and s7: "set_data m6 ''dh_heater'' (Inr dh_heater) dh_heater_times = Inr m7"
    and c: "calc eng (make_model m7) = Inr m"
    unfolding calc_model_def Let_def m0_def [symmetric]
    by (blast dest!: bind_exn_Inr)
  have cm: "comp m = comp m7" using calc_comp [OF c] by (simp add: make_comp)
  have b0: "m_spec m0 = model_spec \<and> m_start m0 = start \<and> m_stop m0 = stop"
    by (simp add: m0_def XijaModel_def)
  have b2: "m_spec m2 = model_spec \<and> m_start m2 = start \<and> m_stop m2 = stop"
    using set_data_built [OF s1] set_data_built [OF s2] b0 by simp
  have n2: "comp m2 ''1pdeaat'' = Some \<lparr>node_data = T_psmc, node_times = T_psmc_times\<rparr>"
    using set_data_same [OF s2] .
  have dv: "comp_dvals eng m2 ''1pdeaat''
              = node_dvals eng model_spec start stop ''1pdeaat'' T_psmc T_psmc_times"
    by (simp add: comp_dvals_def n2 b2)
  have six: "comp m6 k = comp m5 k"
    if "k \<notin> set [''ccd_count'', ''fep_count'', ''vid_board'', ''clocking'', ''pitch'']" for k
    using set_states_data_other [OF s6 that] .
  have e1: "comp m ''1pdeaat'' = Some \<lparr>node_data = T_psmc, node_times = T_psmc_times\<rparr>"
    using n2 set_data_other [OF s3, of "''1pdeaat''"] set_data_other [OF s4, of "''1pdeaat''"]
      set_data_other [OF s5, of "''1pdeaat''"] six [of "''1pdeaat''"]
      set_data_other [OF s7, of "''1pdeaat''"] cm by simp
  have e2: "comp m ''pin1at'' = Some \<lparr>node_data = pin, node_times = T_pin1at_times\<rparr>"
    using set_data_same [OF s3] set_data_other [OF s4, of "''pin1at''"]
      set_data_other [OF s5, of "''pin1at''"] six [of "''pin1at''"]
      set_data_other [OF s7, of "''pin1at''"] cm by simp
  have e3: "comp m ''eclipse'' = Some \<lparr>node_data = Some (BoolConst False), node_times = None\<rparr>"
    using set_data_same [OF s5] six [of "''eclipse''"]
      set_data_other [OF s7, of "''eclipse''"] cm by simp
  have e4: "comp m ''dh_heater'' = Some \<lparr>node_data = dh_heater, node_times = dh_heater_times\<rparr>"
    using set_data_same [OF s7] cm by simp
  from p [unfolded dv] e1 e2 e3 e4 show ?thesis by blast
qed

lemma wrapper_None:
  "calc_model_wrapper ext self w oflsdir model_spec states tstart tstop None =
     (w, self_calc_model self model_spec states tstart tstop None None None None None None)"
  by (simp add: calc_model_wrapper_def)

text \<open>A wrapper call with a state that returns a model: the seed was a number, the
  heater history was there, and the model function got these arguments.\<close>

lemma wrapper_Some_Inr:
  assumes "calc_model_wrapper ext self w oflsdir model_spec states tstart tstop (Some s) = (w', Inr m)"
  shows "\<exists>x htrb. Option.bind (s (t_msid self)) py_float = Some x
           \<and> files w (os_path_join oflsdir ''dahtbon_history.rdb'') = Some htrb
           \<and> self_calc_model self model_spec states tstart tstop
                (Some (Scalar x)) None (Some (Scalar (fsub x 10))) None
                (Some (Array (Bools (map (\<lambda>row. dahtbon row \<noteq> 0) htrb))))
                (Some (Times1 (Floats (map (\<lambda>row. Fin (date2secs ext (time row))) htrb)))) = Inr m"
  using assms
  by (auto simp: calc_model_wrapper_def ascii_read_def logger_info_def Let_def
           split: option.splits sum.splits)

lemma wrapper_opened:
  "opened (fst (calc_model_wrapper ext self w oflsdir model_spec states tstart tstop state0)) =
     opened w @
       (case state0 of
          None \<Rightarrow> []
        | Some s \<Rightarrow>
            (case Option.bind (s (t_msid self)) py_float of
               None \<Rightarrow> []
             | Some x \<Rightarrow> [os_path_join oflsdir ''dahtbon_history.rdb'']))"
  by (simp add: calc_model_wrapper_def ascii_read_def logger_info_def Let_def
           split: option.splits sum.splits)

lemma map_of_filter_fst:
  "map_of (filter (\<lambda>c. fst c \<noteq> k) xs) name = (if name = k then None else map_of xs name)"
  by (induction xs) auto

text \<open>Every state \<^verbatim>\<open>set_initial_state\<close> returns holds a float under the key of the tracked
  sensor: line 78 stores the mean there.\<close>

lemma set_initial_state_seeded:
  assumes "set_initial_state ext self tlm db = Inr s"
  shows "\<exists>f. s (t_msid self) = Some (PFloat f)"
  using assms
  by (auto simp: set_initial_state_def seed_state0_def Let_def split: sum.splits option.splits)



subsection \<open>The example runs\<close>

lemmas ex_defs = ex_tlm_def ex_state0_def ex_seeded_def ex_ext_def ex_spec_def ex_eng_def
  ex_states_def ex_world_def ex_world_nofile_def

lemmas run_defs = calc_model_def XijaModel_def set_data_def comp_dvals_def
  make_model_def calc_def bind_exn_def field_def Let_def

lemma ex_run_calc_model:
  "\<exists>m. calc_model ex_eng ex_spec ex_states 0 100 (Some (Scalar (Fin 45))) None None None None None
         = Inr m"
  by (simp add: ex_defs run_defs)

lemma ex_run_wrapper:
  "\<exists>w' m. calc_model_wrapper (ex_ext 1500) (psmc_check ex_eng ''T_psmc'') ex_world ''/ofls''
             ex_spec ex_states 0 100 (Some ex_seeded) = (w', Inr m)"
  by (simp add: ex_defs run_defs calc_model_wrapper_def psmc_check_def
        os_path_join_def ascii_read_def logger_info_def)

section \<open>The claims\<close>

subsection \<open>C1: the companion sensor is seeded ten degrees below the tracked sensor\<close>

text \<open>
  C1. Whenever the caller supplies no companion-sensor reading, the companion-sensor seed
  is the tracked-sensor seed minus 10.0. In \<^verbatim>\<open>calc_model\<close> with \<^verbatim>\<open>T_pin1at=None\<close>, a run
  that returns has stored for \<^verbatim>\<open>pin1at\<close> the driver values of \<^verbatim>\<open>1pdeaat\<close> minus 10,
  element by element. In \<^verbatim>\<open>calc_model_wrapper\<close> with initial conditions, a run that
  returns has stored the seed \<open>x\<close> of the state for \<^verbatim>\<open>1pdeaat\<close> and \<open>x - 10\<close> for
  \<^verbatim>\<open>pin1at\<close>; without initial conditions the wrapper calls \<^verbatim>\<open>calc_model\<close> with
  \<^verbatim>\<open>T_pin1at=None\<close>, which is the first case. The offset is the same constant for every
  input: no argument changes it.
\<close>

theorem pin1at_offset:
  "(calc_model eng model_spec states start stop T_psmc T_psmc_times None T_pin1at_times
       dh_heater dh_heater_times = Inr m \<longrightarrow>
      (\<exists>dvals. node_dvals eng model_spec start stop ''1pdeaat'' T_psmc T_psmc_times = Inr dvals
         \<and> comp m ''1pdeaat'' = Some \<lparr>node_data = T_psmc, node_times = T_psmc_times\<rparr>
         \<and> comp m ''pin1at'' =
             Some \<lparr>node_data = Some (Array (Floats (map (\<lambda>v. fsub v 10) dvals))),
                   node_times = T_pin1at_times\<rparr>))
   \<and> (calc_model_wrapper ext (psmc_check eng t) w oflsdir model_spec states tstart tstop (Some s)
         = (w', Inr m') \<longrightarrow>
      (\<exists>x. Option.bind (s t) py_float = Some x
         \<and> comp m' ''1pdeaat'' = Some \<lparr>node_data = Some (Scalar x), node_times = None\<rparr>
         \<and> comp m' ''pin1at'' = Some \<lparr>node_data = Some (Scalar (fsub x 10)), node_times = None\<rparr>))
   \<and> calc_model_wrapper ext (psmc_check eng t) w oflsdir model_spec states tstart tstop None
         = (w, calc_model eng model_spec states tstart tstop None None None None None None)"
proof (intro conjI impI)
  assume run: "calc_model eng model_spec states start stop T_psmc T_psmc_times None T_pin1at_times
       dh_heater dh_heater_times = Inr m"
  from calc_model_Inr [OF run] obtain pin where
    p: "bind_exn (node_dvals eng model_spec start stop ''1pdeaat'' T_psmc T_psmc_times)
          (\<lambda>dvals. Inr (Some (Array (Floats (map (\<lambda>v. fsub v 10) dvals))))) = Inr pin"
    and c1: "comp m ''1pdeaat'' = Some \<lparr>node_data = T_psmc, node_times = T_psmc_times\<rparr>"
    and c2: "comp m ''pin1at'' = Some \<lparr>node_data = pin, node_times = T_pin1at_times\<rparr>"
    by auto
  from bind_exn_Inr [OF p] obtain dvals where
    "node_dvals eng model_spec start stop ''1pdeaat'' T_psmc T_psmc_times = Inr dvals"
    and "pin = Some (Array (Floats (map (\<lambda>v. fsub v 10) dvals)))"
    by auto
  with c1 c2 show "\<exists>dvals. node_dvals eng model_spec start stop ''1pdeaat'' T_psmc T_psmc_times = Inr dvals
         \<and> comp m ''1pdeaat'' = Some \<lparr>node_data = T_psmc, node_times = T_psmc_times\<rparr>
         \<and> comp m ''pin1at'' =
             Some \<lparr>node_data = Some (Array (Floats (map (\<lambda>v. fsub v 10) dvals))),
                   node_times = T_pin1at_times\<rparr>"
    by simp
next
  assume run: "calc_model_wrapper ext (psmc_check eng t) w oflsdir model_spec states tstart tstop
                 (Some s) = (w', Inr m')"
  from wrapper_Some_Inr [OF run] obtain x dh dht where
    x: "Option.bind (s t) py_float = Some x"
    and cm: "calc_model eng model_spec states tstart tstop (Some (Scalar x)) None
               (Some (Scalar (fsub x 10))) None dh dht = Inr m'"
    by (auto simp: psmc_check_def)
  from calc_model_Inr [OF cm] x
  show "\<exists>x. Option.bind (s t) py_float = Some x
         \<and> comp m' ''1pdeaat'' = Some \<lparr>node_data = Some (Scalar x), node_times = None\<rparr>
         \<and> comp m' ''pin1at'' = Some \<lparr>node_data = Some (Scalar (fsub x 10)), node_times = None\<rparr>"
    by auto
next
  show "calc_model_wrapper ext (psmc_check eng t) w oflsdir model_spec states tstart tstop None
         = (w, calc_model eng model_spec states tstart tstop None None None None None None)"
    by (simp add: wrapper_None psmc_check_def)
qed

text \<open>Two runs: \<^verbatim>\<open>calc_model\<close> seeded with 45 and no companion reading stores
  \<open>[35, 35, 35]\<close> for the companion sensor; the wrapper on a state seeded with 45 stores
  45 and 35.\<close>

theorem pin1at_offset_witness:
  "(\<exists>m. calc_model ex_eng ex_spec ex_states 0 100 (Some (Scalar (Fin 45))) None None None None None
          = Inr m
       \<and> comp m ''pin1at'' =
           Some \<lparr>node_data = Some (Array (Floats [Fin 35, Fin 35, Fin 35])), node_times = None\<rparr>)
   \<and> (\<exists>w' m. calc_model_wrapper (ex_ext 1500) (psmc_check ex_eng ''T_psmc'') ex_world ''/ofls''
             ex_spec ex_states 0 100 (Some ex_seeded) = (w', Inr m)
       \<and> comp m ''1pdeaat'' = Some \<lparr>node_data = Some (Scalar (Fin 45)), node_times = None\<rparr>
       \<and> comp m ''pin1at'' = Some \<lparr>node_data = Some (Scalar (Fin 35)), node_times = None\<rparr>)"
proof (intro conjI)
  obtain m where
    run: "calc_model ex_eng ex_spec ex_states 0 100 (Some (Scalar (Fin 45))) None None None None None = Inr m"
    using ex_run_calc_model by blast
  from pin1at_offset [THEN conjunct1, rule_format, OF run]
  have "comp m ''pin1at'' =
           Some \<lparr>node_data = Some (Array (Floats [Fin 35, Fin 35, Fin 35])), node_times = None\<rparr>"
    by (auto simp: ex_eng_def)
  with run show "\<exists>m. calc_model ex_eng ex_spec ex_states 0 100 (Some (Scalar (Fin 45))) None None None None None
          = Inr m
       \<and> comp m ''pin1at'' =
           Some \<lparr>node_data = Some (Array (Floats [Fin 35, Fin 35, Fin 35])), node_times = None\<rparr>"
    by blast
next
  obtain w' m where
    run: "calc_model_wrapper (ex_ext 1500) (psmc_check ex_eng ''T_psmc'') ex_world ''/ofls''
             ex_spec ex_states 0 100 (Some ex_seeded) = (w', Inr m)"
    using ex_run_wrapper by blast
  from pin1at_offset [THEN conjunct2, THEN conjunct1, rule_format, OF run]
  have "comp m ''1pdeaat'' = Some \<lparr>node_data = Some (Scalar (Fin 45)), node_times = None\<rparr>
       \<and> comp m ''pin1at'' = Some \<lparr>node_data = Some (Scalar (Fin 35)), node_times = None\<rparr>"
    by (auto simp: ex_seeded_def ex_state0_def)
  with run show "\<exists>w' m. calc_model_wrapper (ex_ext 1500) (psmc_check ex_eng ''T_psmc'') ex_world ''/ofls''
             ex_spec ex_states 0 100 (Some ex_seeded) = (w', Inr m)
       \<and> comp m ''1pdeaat'' = Some \<lparr>node_data = Some (Scalar (Fin 45)), node_times = None\<rparr>
       \<and> comp m ''pin1at'' = Some \<lparr>node_data = Some (Scalar (Fin 35)), node_times = None\<rparr>"
    by blast
qed

subsection \<open>C2: the seed is the mean of the telemetry around the start of the state\<close>

text \<open>
  C2. For a telemetry table and a state database for which the prior state resolves
  (the table has the fifth-from-last sample the lookup starts from, and
  \<^verbatim>\<open>get_state0\<close> returns a state with a start time \<open>ts\<close>), \<^verbatim>\<open>set_initial_state\<close>
  returns that state with the tracked-sensor temperature set to the mean, sum over
  count, of the samples whose dates lie in \<open>[ts - 700, ts + 700]\<close>; every other key of
  the state is as \<^verbatim>\<open>get_state0\<close> returned it. When no sample lies in the window the
  mean is numpy's NaN.
\<close>

theorem set_initial_state_window_mean:
  assumes "5 \<le> length tlm"
    and "get_state0 ext (DateTime_date ext (date (tlm ! (length tlm - 5)))) db ''datestart'' (- 100)
           = Inr state0"
    and "state0 ''tstart'' = Some v" and "py_float v = Some (Fin ts)"
  shows "set_initial_state ext self tlm db =
           Inr (state0(t_msid self \<mapsto> PFloat
             (if filter (\<lambda>r. ts - 700 \<le> date r \<and> date r \<le> ts + 700) tlm = [] then NaN
              else Fin (sum_list (map msid_val
                                   (filter (\<lambda>r. ts - 700 \<le> date r \<and> date r \<le> ts + 700) tlm))
                        / real (length
                                   (filter (\<lambda>r. ts - 700 \<le> date r \<and> date r \<le> ts + 700) tlm))))))"
proof -
  have idx: "py_index (map date tlm) (- 5) = Inr (date (tlm ! (length tlm - 5)))"
    using assms(1) py_index_fifth_from_last [of "map date tlm"] by simp
  show ?thesis
    unfolding set_initial_state_def seed_state0_def
    by (simp add: idx assms(2,3,4) Let_def mask_select_map o_def np_mean_def)
qed

text \<open>The state starts at 1500: the window \<open>[800, 2200]\<close> holds the samples 30, 32, 34,
  36 and 38, whose mean is 34; the other keys of the state stay.\<close>

theorem set_initial_state_window_mean_witness:
  "set_initial_state (ex_ext 1500) (psmc_check ex_eng ''T_psmc'') ex_tlm ()
     = Inr ((ex_state0 1500)(''T_psmc'' \<mapsto> PFloat (Fin 34)))"
  using set_initial_state_window_mean [of ex_tlm "ex_ext 1500" "()" "ex_state0 1500"
          "PFloat (Fin 1500)" 1500 "psmc_check ex_eng ''T_psmc''"]
  by (simp add: ex_tlm_def ex_ext_def ex_state0_def psmc_check_def)

subsection \<open>C4: an empty window is not detected\<close>

text \<open>
  C4 says that a table with no sample in the window makes \<^verbatim>\<open>set_initial_state\<close> fail
  with InsufficientTelemetryError. The code has no such check and no such exception:
  \<^verbatim>\<open>np.mean\<close> of the empty selection is NaN, and the call returns. With the state
  starting at 100 the window \<open>[-600, 800]\<close> holds none of the samples, and the call
  returns the state with NaN for the temperature.
\<close>

theorem set_initial_state_empty_window_counterexample:
  "filter (\<lambda>r. 100 - 700 \<le> date r \<and> date r \<le> 100 + 700) ex_tlm = []
   \<and> get_state0 (ex_ext 100) (DateTime_date (ex_ext 100) 1300) () ''datestart'' (- 100)
       = Inr (ex_state0 100)
   \<and> set_initial_state (ex_ext 100) (psmc_check ex_eng ''T_psmc'') ex_tlm ()
       = Inr ((ex_state0 100)(''T_psmc'' \<mapsto> PFloat NaN))
   \<and> (\<forall>e. set_initial_state (ex_ext 100) (psmc_check ex_eng ''T_psmc'') ex_tlm () \<noteq> Inl e)"
  by (simp add: set_initial_state_def seed_state0_def py_index_def ex_tlm_def ex_ext_def
        ex_state0_def psmc_check_def mask_select_def np_mean_def Let_def)

text \<open>
  C4 as amended. For every telemetry table with no sample within 700 seconds of the
  start time of the resolved state, \<^verbatim>\<open>set_initial_state\<close> does not fail: it returns the
  resolved state with the tracked-sensor temperature set to NaN.
\<close>

theorem set_initial_state_empty_window:
  assumes "5 \<le> length tlm"
    and "get_state0 ext (DateTime_date ext (date (tlm ! (length tlm - 5)))) db ''datestart'' (- 100)
           = Inr state0"
    and "state0 ''tstart'' = Some v" and "py_float v = Some (Fin ts)"
    and "filter (\<lambda>r. ts - 700 \<le> date r \<and> date r \<le> ts + 700) tlm = []"
  shows "set_initial_state ext self tlm db = Inr (state0(t_msid self \<mapsto> PFloat NaN))"
proof -
  have idx: "py_index (map date tlm) (- 5) = Inr (date (tlm ! (length tlm - 5)))"
    using assms(1) py_index_fifth_from_last [of "map date tlm"] by simp
  show ?thesis
    unfolding set_initial_state_def seed_state0_def
    by (simp add: idx assms(2,3,4,5) Let_def mask_select_map o_def np_mean_def)
qed

theorem set_initial_state_empty_window_witness:
  "set_initial_state (ex_ext 100) (psmc_check ex_eng ''T_psmc'') ex_tlm ()
     = Inr ((ex_state0 100)(''T_psmc'' \<mapsto> PFloat NaN))"
  using set_initial_state_empty_window [of ex_tlm "ex_ext 100" "()" "ex_state0 100"
          "PFloat (Fin 100)" 100 "psmc_check ex_eng ''T_psmc''"]
  by (simp add: ex_tlm_def ex_ext_def ex_state0_def psmc_check_def)

subsection \<open>C9: the reference date is the fifth-from-last timestamp\<close>

text \<open>
  C9. \<^verbatim>\<open>set_initial_state\<close> looks the state up at the date of the fifth-from-last
  telemetry sample, \<^verbatim>\<open>tlm['date'][-5]\<close>, not the last one: on a table of five or more
  samples the call is the lookup at that date followed by the seeding, and on a shorter
  table the indexing raises IndexError and there are no initial conditions.
\<close>

theorem set_initial_state_reference_date:
  "(length tlm < 5 \<longrightarrow>
      set_initial_state ext self tlm db = Inl (Exn ''IndexError'' ''index out of bounds''))
   \<and> (5 \<le> length tlm \<longrightarrow>
      set_initial_state ext self tlm db =
        bind_exn (get_state0 ext (DateTime_date ext (date (tlm ! (length tlm - 5)))) db
                    ''datestart'' (- 100))
          (seed_state0 self tlm))"
proof (intro conjI impI)
  assume "length tlm < 5"
  then have "py_index (map date tlm) (- 5) = Inl (Exn ''IndexError'' ''index out of bounds'')"
    using py_index_short [of "map date tlm"] by simp
  then show "set_initial_state ext self tlm db = Inl (Exn ''IndexError'' ''index out of bounds'')"
    by (simp add: set_initial_state_def)
next
  assume "5 \<le> length tlm"
  then have "py_index (map date tlm) (- 5) = Inr (date (tlm ! (length tlm - 5)))"
    using py_index_fifth_from_last [of "map date tlm"] by simp
  then show "set_initial_state ext self tlm db =
        bind_exn (get_state0 ext (DateTime_date ext (date (tlm ! (length tlm - 5)))) db
                    ''datestart'' (- 100))
          (seed_state0 self tlm)"
    by (simp add: set_initial_state_def bind_exn_def)
qed

text \<open>
  The example database knows a state only at the date of the sample at 1300, the
  fifth-from-last of the six; the last one, at 2500, resolves to nothing. The call on
  the six samples succeeds; on the last four of them it raises IndexError.
\<close>

theorem set_initial_state_reference_date_witness:
  "set_initial_state (ex_ext 1500) (psmc_check ex_eng ''T_psmc'') (drop 2 ex_tlm) ()
     = Inl (Exn ''IndexError'' ''index out of bounds'')
   \<and> set_initial_state (ex_ext 1500) (psmc_check ex_eng ''T_psmc'') ex_tlm ()
     = seed_state0 (psmc_check ex_eng ''T_psmc'') ex_tlm (ex_state0 1500)
   \<and> get_state0 (ex_ext 1500) (DateTime_date (ex_ext 1500) (date (last ex_tlm))) ()
        ''datestart'' (- 100) = Inl (Exn ''ValueError'' ''no state'')"
  using set_initial_state_reference_date [of "drop 2 ex_tlm" "ex_ext 1500"
          "psmc_check ex_eng ''T_psmc''" "()"]
    set_initial_state_reference_date [of ex_tlm "ex_ext 1500" "psmc_check ex_eng ''T_psmc''" "()"]
  by (simp add: ex_tlm_def ex_ext_def bind_exn_def)

subsection \<open>C3: a missing heater history stops the wrapper before the model runs\<close>




subsection \<open>C10: when the wrapper reads the heater history\<close>

text \<open>
  C10. Let the state, when there is one, hold a float under the key of the tracked
  sensor, as every state that \<^verbatim>\<open>set_initial_state\<close> returns does. Then
  \<^verbatim>\<open>calc_model_wrapper\<close> reads a file if and only if the state is not \<^verbatim>\<open>None\<close>, and the
  file it reads is \<^verbatim>\<open>dahtbon_history.rdb\<close> of the planning directory. When the state is
  \<^verbatim>\<open>None\<close> the wrapper leaves the world as it found it and the run is the model function
  on \<^verbatim>\<open>None\<close> for the two seeds and the two heater inputs: the files play no part in it,
  so a missing heater history cannot make it fail.
\<close>

theorem wrapper_heater_file_access:
  assumes seeded: "\<And>s. state0 = Some s \<Longrightarrow> \<exists>f. s (t_msid self) = Some (PFloat f)"
  shows "((opened (fst (calc_model_wrapper ext self w oflsdir model_spec states tstart tstop state0))
             \<noteq> opened w) = (state0 \<noteq> None))
       \<and> (state0 \<noteq> None \<longrightarrow>
            opened (fst (calc_model_wrapper ext self w oflsdir model_spec states tstart tstop state0))
              = opened w @ [os_path_join oflsdir ''dahtbon_history.rdb''])
       \<and> calc_model_wrapper ext self w oflsdir model_spec states tstart tstop None =
            (w, self_calc_model self model_spec states tstart tstop None None None None None None)"
proof (cases state0)
  case None
  then show ?thesis by (simp add: wrapper_None)
next
  case (Some s)
  with seeded obtain f where "s (t_msid self) = Some (PFloat f)" by blast
  with Some show ?thesis by (simp add: wrapper_opened wrapper_None)
qed

text \<open>The state that \<^verbatim>\<open>set_initial_state\<close> returns on the example telemetry makes the
  wrapper read the history file of the planning directory; with no state, in a
  directory without that file, nothing is read and the run is \<^verbatim>\<open>calc_model\<close> on
  \<^verbatim>\<open>None\<close>.\<close>

theorem wrapper_heater_file_access_witness:
  "(\<exists>s. set_initial_state (ex_ext 1500) (psmc_check ex_eng ''T_psmc'') ex_tlm () = Inr s
       \<and> opened (fst (calc_model_wrapper (ex_ext 1500) (psmc_check ex_eng ''T_psmc'') ex_world
                         ''/ofls'' ex_spec ex_states 0 100 (Some s)))
           = [''/ofls/dahtbon_history.rdb''])
   \<and> calc_model_wrapper (ex_ext 1500) (psmc_check ex_eng ''T_psmc'') ex_world_nofile
        ''/ofls'' ex_spec ex_states 0 100 None
       = (ex_world_nofile,
          calc_model ex_eng ex_spec ex_states 0 100 None None None None None None)
   \<and> opened ex_world_nofile = []"
proof (intro conjI)
  have "\<exists>s. set_initial_state (ex_ext 1500) (psmc_check ex_eng ''T_psmc'') ex_tlm () = Inr s"
    by (simp add: set_initial_state_def seed_state0_def py_index_def ex_tlm_def ex_ext_def
          ex_state0_def Let_def)
  then obtain s where
    s: "set_initial_state (ex_ext 1500) (psmc_check ex_eng ''T_psmc'') ex_tlm () = Inr s"
    by blast
  have "opened (fst (calc_model_wrapper (ex_ext 1500) (psmc_check ex_eng ''T_psmc'') ex_world
                         ''/ofls'' ex_spec ex_states 0 100 (Some s)))
           = [''/ofls/dahtbon_history.rdb'']"
    using wrapper_heater_file_access [of "Some s" "psmc_check ex_eng ''T_psmc''" "ex_ext 1500"
            ex_world "''/ofls''" ex_spec ex_states 0 100] set_initial_state_seeded [OF s]
    by (simp add: ex_world_def os_path_join_def)
  with s show "\<exists>s. set_initial_state (ex_ext 1500) (psmc_check ex_eng ''T_psmc'') ex_tlm () = Inr s
       \<and> opened (fst (calc_model_wrapper (ex_ext 1500) (psmc_check ex_eng ''T_psmc'') ex_world
                         ''/ofls'' ex_spec ex_states 0 100 (Some s)))
           = [''/ofls/dahtbon_history.rdb'']"
    by blast
next
  show "calc_model_wrapper (ex_ext 1500) (psmc_check ex_eng ''T_psmc'') ex_world_nofile
        ''/ofls'' ex_spec ex_states 0 100 None
       = (ex_world_nofile,
          calc_model ex_eng ex_spec ex_states 0 100 None None None None None None)"
    using wrapper_heater_file_access [of None "psmc_check ex_eng ''T_psmc''" "ex_ext 1500"
            ex_world_nofile "''/ofls''" ex_spec ex_states 0 100]
    by (simp add: psmc_check_def)
next
  show "opened ex_world_nofile = []" by (simp add: ex_world_nofile_def)
qed

subsection \<open>C5: the model driver is a function of its inputs\<close>



subsection \<open>C6: the exported state table\<close>

text \<open>
  C6. \<^verbatim>\<open>write_states\<close> exports the state table without the column \<^verbatim>\<open>T_pin1at\<close>: the
  other columns are exported in their order with their contents, and a lookup by name
  in the export finds what it finds in the table, except for \<^verbatim>\<open>T_pin1at\<close>, which it
  does not find.
\<close>

theorem write_states_removes_T_pin1at:
  "write_states opt states = filter (\<lambda>c. fst c \<noteq> ''T_pin1at'') states
   \<and> map_of (write_states opt states) name =
       (if name = ''T_pin1at'' then None else map_of states name)"
  by (simp add: write_states_def base_write_states_def map_of_filter_fst)

theorem write_states_removes_T_pin1at_witness:
  "map fst (write_states () ex_states) =
     [''tstart'', ''tstop'', ''datestart'', ''simpos'', ''pitch'', ''ccd_count'', ''fep_count'',
      ''vid_board'', ''clocking'']
   \<and> map_of (write_states () ex_states) ''pitch'' = Some (Floats [Fin 150, Fin 90])"
  using write_states_removes_T_pin1at [of "()" ex_states "''pitch''"]
  by (simp add: ex_states_def)

subsection \<open>C7: how main ends\<close>

text \<open>
  C7. With \<open>args\<close> the options \<^verbatim>\<open>get_options\<close> returned: when the driver raises \<open>e\<close> and
  the traceback flag is not set, \<^verbatim>\<open>main\<close> prints the line \<^verbatim>\<open>ERROR:\<close> with the message
  of \<open>e\<close> and leaves through \<^verbatim>\<open>sys.exit(1)\<close>; when the flag is set it prints nothing
  and \<open>e\<close> itself goes on to the interpreter; when the driver returns, \<^verbatim>\<open>main\<close> returns
  and the exit status is 0.
\<close>

theorem main_failure_policy:
  assumes "args = get_options ''1PDEAAT'' ''psmc'' model_path
                    [(''dh_heater'', \<lparr>opt_type = ''int'', opt_default = 0,
                        opt_help = ''Starting Detector Housing Heater state''\<rparr>)]"
  shows "(driver args = Inl e \<and> \<not> traceback args \<longrightarrow>
            main get_options driver model_path = ([''ERROR: '' @ py_str e], SysExit 1)
            \<and> exit_status (snd (main get_options driver model_path)) = 1)
       \<and> (driver args = Inl e \<and> traceback args \<longrightarrow>
            main get_options driver model_path = ([], Propagated e))
       \<and> (driver args = Inr u \<longrightarrow>
            main get_options driver model_path = ([], Returned)
            \<and> exit_status (snd (main get_options driver model_path)) = 0)"
  using assms by (simp add: main_def Let_def)

theorem main_failure_policy_witness:
  "main (ex_get_options False) (ex_driver False) ''/model''
     = ([''ERROR: no telemetry''], SysExit 1)
   \<and> main (ex_get_options True) (ex_driver False) ''/model''
     = ([], Propagated (Exn ''ValueError'' ''no telemetry''))
   \<and> main (ex_get_options False) (ex_driver True) ''/model'' = ([], Returned)
   \<and> exit_status (snd (main (ex_get_options False) (ex_driver True) ''/model'')) = 0"
  using main_failure_policy [OF refl, of "ex_driver False" "ex_get_options False" "''/model''"
          "Exn ''ValueError'' ''no telemetry''"]
    main_failure_policy [OF refl, of "ex_driver False" "ex_get_options True" "''/model''"
          "Exn ''ValueError'' ''no telemetry''"]
    main_failure_policy [OF refl, of "ex_driver True" "ex_get_options False" "''/model''" _ "()"]
  by (simp add: ex_get_options_def ex_driver_def py_str_def)

subsection \<open>C8: the eclipse driver is the constant False\<close>

text \<open>
  C8. Whatever the inputs, the model a call of \<^verbatim>\<open>calc_model\<close> returns has the eclipse
  component set to the constant \<^verbatim>\<open>False\<close> with no times, that is, for the whole run.
\<close>

theorem calc_model_eclipse_false:
  "calc_model eng model_spec states start stop T_psmc T_psmc_times T_pin1at T_pin1at_times
     dh_heater dh_heater_times = Inr m
   \<Longrightarrow> comp m ''eclipse'' = Some \<lparr>node_data = Some (BoolConst False), node_times = None\<rparr>"
  by (blast dest: calc_model_Inr)

theorem calc_model_eclipse_false_witness:
  "\<exists>m. calc_model ex_eng ex_spec ex_states 0 100 (Some (Scalar (Fin 45))) None None None None None
         = Inr m
      \<and> comp m ''eclipse'' = Some \<lparr>node_data = Some (BoolConst False), node_times = None\<rparr>"
proof -
  obtain m where
    run: "calc_model ex_eng ex_spec ex_states 0 100 (Some (Scalar (Fin 45))) None None None None None
            = Inr m"
    using ex_run_calc_model by blast
  from calc_model_eclipse_false [OF run] run show ?thesis by blast
qed

end
